theory Spec2Isabelle
  imports Complex_Main
begin

section \<open>Tensors and floating-point values\<close>

text \<open>
  A two-dimensional tensor of shape \<open>(n, d)\<close> is the list of its \<open>n\<close> rows, each of
  length \<open>d\<close>; the batch dimension is dimension 0.  A tensor with zero rows is the empty
  list and has no columns here.

  Entries are exact reals.  The model therefore says which formula the code computes
  and what that formula gives in exact arithmetic; it does not say what rounding,
  overflow or underflow of the machine floats do to a value.

  A value computed by a division is a \<open>real option\<close>: \<open>None\<close> stands for a result that
  is not a number, which is what the machine division returns for \<open>0 / 0\<close>, and what
  \<open>std\<close> returns for fewer than two rows.

  A tensor of shape \<open>(1, d)\<close>, as produced by a reduction with \<open>keepdims=True\<close>, is held
  as its single row.
\<close>

type_synonym tensor2 = "real list list"

definition shape0 :: "'a list list \<Rightarrow> nat" where
  "shape0 x = length x"

definition shape1 :: "'a list list \<Rightarrow> nat" where
  "shape1 x = (case x of [] \<Rightarrow> 0 | r # _ \<Rightarrow> length r)"

definition is_tensor2 :: "nat \<Rightarrow> nat \<Rightarrow> 'a list list \<Rightarrow> bool" where
  "is_tensor2 n d x \<longleftrightarrow> length x = n \<and> list_all (\<lambda>r. length r = d) x"

definition column :: "'a list list \<Rightarrow> nat \<Rightarrow> 'a list" where
  "column x j = map (\<lambda>r. r ! j) x"

text \<open>\<open>x.mean(0, keepdims=True)\<close>\<close>

definition mean0 :: "tensor2 \<Rightarrow> real list" where
  "mean0 x = map (\<lambda>j. sum_list (column x j) / real (shape0 x)) [0..<shape1 x]"

text \<open>\<open>x - m\<close> with \<open>m\<close> of shape \<open>(1, d)\<close>, broadcast over the rows\<close>

definition sub_row :: "tensor2 \<Rightarrow> real list \<Rightarrow> tensor2" where
  "sub_row x m = map (\<lambda>r. map2 (-) r m) x"

text \<open>\<open>a * b\<close>, elementwise on two tensors of one shape\<close>

definition mul_t :: "tensor2 \<Rightarrow> tensor2 \<Rightarrow> tensor2" where
  "mul_t a b = map2 (map2 (*)) a b"

text \<open>\<open>a.sum(0, keepdims=True)\<close>\<close>

definition sum0 :: "tensor2 \<Rightarrow> real list" where
  "sum0 a = map (\<lambda>j. sum_list (column a j)) [0..<shape1 a]"

text \<open>Floating-point division: a zero divisor gives a non-finite result.\<close>

fun fdiv :: "real option \<Rightarrow> real option \<Rightarrow> real option" where
  "fdiv (Some a) (Some b) = (if b = 0 then None else Some (a / b))"
| "fdiv _ _ = None"

fun fmul :: "real option \<Rightarrow> real option \<Rightarrow> real option" where
  "fmul (Some a) (Some b) = Some (a * b)"
| "fmul _ _ = None"

fun fadd :: "real option \<Rightarrow> real option \<Rightarrow> real option" where
  "fadd (Some a) (Some b) = Some (a + b)"
| "fadd _ _ = None"

text \<open>A \<open>(1, d)\<close> tensor divided by a Python integer\<close>

definition div_scalar :: "real list \<Rightarrow> int \<Rightarrow> real option list" where
  "div_scalar a k = map (\<lambda>v. fdiv (Some v) (Some (real_of_int k))) a"

text \<open>
  \<open>x.std(0, keepdims=True)\<close>: the square root of the unbiased variance estimate; with
  fewer than two rows the degrees of freedom are not positive and the result is NaN.
\<close>

definition std_col :: "real list \<Rightarrow> real option" where
  "std_col c =
     (if length c \<le> 1 then None
      else Some (sqrt (sum_list (map (\<lambda>v. (v - sum_list c / real (length c))\<^sup>2) c)
                       / (real (length c) - 1))))"

definition std0 :: "tensor2 \<Rightarrow> real option list" where
  "std0 x = map (\<lambda>j. std_col (column x j)) [0..<shape1 x]"

definition add_scalar :: "real option list \<Rightarrow> real \<Rightarrow> real option list" where
  "add_scalar a e = map (\<lambda>v. fadd v (Some e)) a"

definition mul_f :: "real option list \<Rightarrow> real option list \<Rightarrow> real option list" where
  "mul_f a b = map2 fmul a b"

definition div_f :: "real option list \<Rightarrow> real option list \<Rightarrow> real option list" where
  "div_f a b = map2 fdiv a b"

text \<open>\<open>ravel\<close> of a \<open>(1, d)\<close> tensor is its row.\<close>

definition ravel :: "'a list \<Rightarrow> 'a list" where
  "ravel a = a"

section \<open>The correlation metric\<close>

text \<open>The literal \<open>1e-8\<close>\<close>

definition eps :: real where
  "eps = 1 / 10 ^ 8"

definition vectorized_correlation :: "tensor2 \<Rightarrow> tensor2 \<Rightarrow> real option list" where
  "vectorized_correlation x y =
     (let centered_x = sub_row x (mean0 x);
          centered_y = sub_row y (mean0 y);
          covariance = sum0 (mul_t centered_x centered_y);
          bessel_corrected_covariance = div_scalar covariance (int (shape0 x) - 1);
          x_std = add_scalar (std0 x) eps;
          y_std = add_scalar (std0 y) eps;
          corr = div_f bessel_corrected_covariance (mul_f x_std y_std)
      in ravel corr)"


text \<open>
  The metric as the specification words it, for one output dimension: \<open>cx\<close> and \<open>cy\<close>
  are the columns of predictions and targets over the batch.
\<close>

definition mean_l :: "real list \<Rightarrow> real" where
  "mean_l c = sum_list c / real (length c)"

definition sample_cov :: "real list \<Rightarrow> real list \<Rightarrow> real" where
  "sample_cov cx cy =
     sum_list (map2 (\<lambda>a b. (a - mean_l cx) * (b - mean_l cy)) cx cy) / (real (length cx) - 1)"

definition sample_std :: "real list \<Rightarrow> real" where
  "sample_std c = sqrt (sample_cov c c)"

definition pearson_eps :: "real list \<Rightarrow> real list \<Rightarrow> real" where
  "pearson_eps cx cy =
     sample_cov cx cy / ((sample_std cx + eps) * (sample_std cy + eps))"

text \<open>What \<open>vectorized_correlation\<close> computes in one column, operation by operation.\<close>

definition corr_col :: "nat \<Rightarrow> real list \<Rightarrow> real list \<Rightarrow> real option" where
  "corr_col n cx cy =
     fdiv (fdiv (Some (sum_list (map2 (\<lambda>a b. (a - mean_l cx) * (b - mean_l cy)) cx cy)))
                (Some (real_of_int (int n - 1))))
          (fmul (fadd (std_col cx) (Some eps)) (fadd (std_col cy) (Some eps)))"

section \<open>Validation\<close>

datatype error = RuntimeError | StopIteration | IndexError

record step_output =
  step_out :: tensor2
  step_y :: tensor2

text \<open>\<open>torch.cat(ts, 0)\<close> of tensors with one number of columns; an empty list raises.\<close>

definition cat0 :: "tensor2 list \<Rightarrow> error + tensor2" where
  "cat0 ts = (if ts = [] then Inl RuntimeError else Inr (concat ts))"

text \<open>\<open>v.mean()\<close> of a vector: a NaN entry, or no entry at all, gives NaN.\<close>

definition mean_f :: "real option list \<Rightarrow> real option" where
  "mean_f v = fdiv (foldr fadd v (Some 0)) (Some (real (length v)))"

text \<open>\<open>validation_epoch_end\<close> returns what it logs.\<close>

definition validation_epoch_end :: "step_output list \<Rightarrow> error + (string \<times> real option) list" where
  "validation_epoch_end val_step_outputs =
     (case cat0 (map step_out val_step_outputs) of
        Inl e \<Rightarrow> Inl e
      | Inr val_outs \<Rightarrow>
          (case cat0 (map step_y val_step_outputs) of
             Inl e \<Rightarrow> Inl e
           | Inr val_ys \<Rightarrow>
               (let val_corr = mean_f (vectorized_correlation val_outs val_ys)
                in Inr [(''val_corr'', val_corr)])))"

datatype monitor_mode = Mode_min | Mode_max

record monitor_callback =
  monitor :: string
  mode :: monitor_mode

text \<open>\<open>ModelCheckpoint\<close> and \<open>EarlyStopping\<close> of the main script: what they watch.\<close>

definition checkpoint_callback :: monitor_callback where
  "checkpoint_callback = \<lparr>monitor = ''val_corr'', mode = Mode_max\<rparr>"

definition early_stop_callback :: monitor_callback where
  "early_stop_callback = \<lparr>monitor = ''val_corr'', mode = Mode_max\<rparr>"

section \<open>Data augmentation\<close>

datatype aug3d =
    RandomHorizontalFlip3D real
  | RandomRotation3D real real

text \<open>\<open>RandomHorizontalFlip3D(p=0.5)\<close>, then \<open>RandomRotation3D(degrees=15, p=0.5)\<close>\<close>

definition DataAugmentation_transforms :: "aug3d list" where
  "DataAugmentation_transforms = [RandomHorizontalFlip3D (1 / 2), RandomRotation3D 15 (1 / 2)]"

text \<open>
  \<open>nn.Sequential\<close>: each transform in turn.  The transforms themselves are the
  augmentation library's; \<open>run\<close> gives their effect on a batch, threading the state
  \<open>'r\<close> of the random generator.
\<close>

fun sequential :: "('t \<Rightarrow> 'r \<Rightarrow> 'x \<Rightarrow> 'x \<times> 'r) \<Rightarrow> 't list \<Rightarrow> 'r \<Rightarrow> 'x \<Rightarrow> 'x \<times> 'r" where
  "sequential run [] g x = (x, g)"
| "sequential run (t # ts) g x = (case run t g x of (x', g') \<Rightarrow> sequential run ts g' x')"

record 'x no_grad_result =
  value_of :: 'x
  requires_grad :: bool

text \<open>\<open>DataAugmentation.forward\<close>, decorated with \<open>torch.no_grad()\<close>\<close>

definition DataAugmentation_forward ::
  "(aug3d \<Rightarrow> 'r \<Rightarrow> 'x \<Rightarrow> 'x \<times> 'r) \<Rightarrow> 'r \<Rightarrow> 'x \<Rightarrow> 'x no_grad_result \<times> 'r" where
  "DataAugmentation_forward run g x =
     (case sequential run DataAugmentation_transforms g x of
        (x_out, g') \<Rightarrow> (\<lparr>value_of = x_out, requires_grad = False\<rparr>, g'))"

section \<open>The lightning module\<close>

text \<open>
  A network is a tree of modules, each with its \<open>training\<close> flag.  A batch
  normalisation layer updates its running statistics in a forward pass exactly when it
  is in training mode.
\<close>

datatype module_kind = BatchNorm1d | BatchNorm2d | BatchNorm3d | Other_layer

datatype module = Module (kind: module_kind) (training: bool) (children: "module list")

text \<open>\<open>nn.Module.train(mode)\<close>; \<open>eval()\<close> is \<open>train(False)\<close>\<close>

fun train_mode :: "bool \<Rightarrow> module \<Rightarrow> module" where
  "train_mode b (Module k t cs) = Module k b (map (train_mode b) cs)"

text \<open>\<open>nn.Module.modules()\<close>: the module itself, then its descendants\<close>

fun modules :: "module \<Rightarrow> module list" where
  "modules (Module k t cs) = Module k t cs # concat (map modules cs)"

text \<open>
  \<open>disable_bn(model)\<close>: every module of \<open>model.modules()\<close> that is a \<open>BatchNorm3d\<close> is
  put in evaluation mode (and with it whatever is below it).
\<close>

fun disable_bn :: "module \<Rightarrow> module" where
  "disable_bn (Module k t cs) =
     (if k = BatchNorm3d then train_mode False (Module k t cs)
      else Module k t (map disable_bn cs))"

text \<open>\<open>nn.Module.apply(fn)\<close>: the children first, then the module itself\<close>

fun apply_fn :: "(module \<Rightarrow> module) \<Rightarrow> module \<Rightarrow> module" where
  "apply_fn f (Module k t cs) = f (Module k t (map (apply_fn f) cs))"

definition is_batchnorm :: "module \<Rightarrow> bool" where
  "is_batchnorm m \<longleftrightarrow> kind m = BatchNorm1d \<or> kind m = BatchNorm2d \<or> kind m = BatchNorm3d"

definition updates_running_stats :: "module \<Rightarrow> bool" where
  "updates_running_stats m \<longleftrightarrow> is_batchnorm m \<and> training m"

record 'x LitI3DFC =
  lit_training :: bool
  automatic_optimization :: bool
  train_transform :: "('x \<Rightarrow> 'x) option"
  backbone :: module
  minifc :: module
  asm :: bool

text \<open>
  \<open>LitI3DFC.__init__\<close>; the regression head \<open>MiniFC(hparams)\<close> is built elsewhere and is
  a parameter here, as is the flag \<open>hparams.asm\<close>.
\<close>

definition LitI3DFC_init :: "module \<Rightarrow> bool \<Rightarrow> module \<Rightarrow> 'x LitI3DFC" where
  "LitI3DFC_init backbone_arg hparams_asm MiniFC =
     \<lparr>lit_training = True, automatic_optimization = False, train_transform = None,
      backbone = backbone_arg, minifc = MiniFC, asm = hparams_asm\<rparr>"

text \<open>\<open>self.train()\<close>\<close>

definition train :: "'x LitI3DFC \<Rightarrow> 'x LitI3DFC" where
  "train self = self\<lparr>lit_training := True,
                     backbone := train_mode True (backbone self),
                     minifc := train_mode True (minifc self)\<rparr>"

text \<open>
  The calls a training step makes, in order.  A forward pass carries its input and
  the backbone and head as they are when it runs.
\<close>

datatype 'x event =
    Forward 'x module module
  | Mse_loss
  | Log string
  | Manual_backward
  | First_step bool
  | Apply_disable_bn
  | Second_step bool
  | Optimizer_step

definition shared_train_val :: "'x LitI3DFC \<Rightarrow> 'x \<Rightarrow> string \<Rightarrow> bool \<Rightarrow> 'x event list" where
  "shared_train_val self x prefix is_log =
     [Forward x (backbone self) (minifc self), Mse_loss]
     @ (if is_log then [Log (prefix @ ''_mse_loss'')] else [])"

definition training_step :: "'x LitI3DFC \<Rightarrow> 'x \<Rightarrow> 'x LitI3DFC \<times> 'x event list" where
  "training_step self0 x0 =
     (let self1 = train self0;
          x = (case train_transform self1 of None \<Rightarrow> x0 | Some t \<Rightarrow> t x0);
          ev1 = shared_train_val self1 x ''train'' True @ [Manual_backward]
      in if asm self1 then
           (let ev2 = [First_step True];
                self2 = self1\<lparr>backbone := apply_fn disable_bn (backbone self1)\<rparr>;
                ev3 = [Apply_disable_bn];
                ev4 = shared_train_val self2 x ''train'' False @ [Manual_backward];
                ev5 = [Second_step True]
            in (self2, ev1 @ ev2 @ ev3 @ ev4 @ ev5))
         else (self1, ev1 @ [Optimizer_step]))"

fun forward_inputs :: "'x event list \<Rightarrow> 'x list" where
  "forward_inputs [] = []"
| "forward_inputs (Forward x b f # es) = x # forward_inputs es"
| "forward_inputs (e # es) = forward_inputs es"

fun forward_heads :: "'x event list \<Rightarrow> module list" where
  "forward_heads [] = []"
| "forward_heads (Forward x b f # es) = f # forward_heads es"
| "forward_heads (e # es) = forward_heads es"

fun forward_backbones :: "'x event list \<Rightarrow> module list" where
  "forward_backbones [] = []"
| "forward_backbones (Forward x b f # es) = b # forward_backbones es"
| "forward_backbones (e # es) = forward_backbones es"

text \<open>
  Which modules of a tree are in training mode once the \<open>BatchNorm3d\<close> modules have
  been put in evaluation mode: a module trains exactly when it is neither a
  \<open>BatchNorm3d\<close> nor below one.  \<open>inside\<close> says whether a \<open>BatchNorm3d\<close> lies above.
\<close>

fun trains_outside_bn3d :: "bool \<Rightarrow> module \<Rightarrow> bool" where
  "trains_outside_bn3d inside (Module k t cs) =
     ((t \<longleftrightarrow> \<not> (inside \<or> k = BatchNorm3d))
      \<and> list_all (trains_outside_bn3d (inside \<or> k = BatchNorm3d)) cs)"

subsection \<open>What the calls of a training step do to the parameters\<close>

text \<open>
  The network and the base optimizer are parameters: \<open>loss_grad b f w x\<close> is the
  gradient of the mean squared error of the forward pass on batch \<open>x\<close> at parameters
  \<open>w\<close>, with backbone \<open>b\<close> and head \<open>f\<close> in the modes they have; \<open>accumulate\<close> adds a
  gradient to the one already stored; \<open>descent\<close> is the update of the base optimizer;
  \<open>ascent w g\<close> is \<open>w\<close> moved along the gradient \<open>g\<close>, towards higher loss.
\<close>

record ('p, 's, 'x) learner =
  loss_grad :: "module \<Rightarrow> module \<Rightarrow> 'p \<Rightarrow> 'x \<Rightarrow> 'p"
  accumulate :: "'p \<Rightarrow> 'p \<Rightarrow> 'p"
  ascent :: "'p \<Rightarrow> 'p \<Rightarrow> 'p"
  descent :: "'s \<Rightarrow> 'p \<Rightarrow> 'p \<Rightarrow> 's \<times> 'p"

text \<open>
  The parameters, the stored gradient (\<open>None\<close> once it has been zeroed), the gradient
  of the loss computed last, the state of the base optimizer, and the parameters that
  the first step of the sharpness-aware optimizer put aside.
\<close>

record ('p, 's) optimizer =
  params :: 'p
  grad :: "'p option"
  last_loss_grad :: "'p option"
  base_state :: 's
  old_p :: "'p option"

text \<open>\<open>manual_backward\<close>: the gradient of the loss is added to the stored one.\<close>

definition backward_into :: "('p, 's, 'x) learner \<Rightarrow> 'p option \<Rightarrow> 'p \<Rightarrow> 'p" where
  "backward_into L stored g = (case stored of None \<Rightarrow> g | Some g0 \<Rightarrow> accumulate L g0 g)"

text \<open>
  Modelled from the spec: the two steps of the sharpness-aware optimizer \<open>SAM\<close> of
  \<open>sam.py\<close>, which is not among the sources.  The first is ``an exploratory ascent step
  that perturbs parameters toward higher local loss'': it puts the parameters aside and
  moves them along the stored gradient.  The second is ``a descent step that also
  reverts the perturbation'': it restores the parameters put aside and applies the
  update of the base optimizer to them with the gradient stored now.  Both zero the
  stored gradient when asked to.  Without a stored gradient neither moves anything.
\<close>

definition first_step :: "('p, 's, 'x) learner \<Rightarrow> bool \<Rightarrow> ('p, 's) optimizer \<Rightarrow> ('p, 's) optimizer" where
  "first_step L zero_grad st =
     (case grad st of
        None \<Rightarrow> st
      | Some g \<Rightarrow> st\<lparr>old_p := Some (params st), params := ascent L (params st) g,
                       grad := (if zero_grad then None else Some g)\<rparr>)"

definition second_step :: "('p, 's, 'x) learner \<Rightarrow> bool \<Rightarrow> ('p, 's) optimizer \<Rightarrow> ('p, 's) optimizer" where
  "second_step L zero_grad st =
     (case grad st of
        None \<Rightarrow> st
      | Some g \<Rightarrow>
          (let w = (case old_p st of None \<Rightarrow> params st | Some w0 \<Rightarrow> w0);
               r = descent L (base_state st) w g
           in st\<lparr>params := snd r, base_state := fst r,
                  grad := (if zero_grad then None else Some g)\<rparr>))"

text \<open>\<open>optimizer.step()\<close> of the base optimizer; it leaves the stored gradient.\<close>

definition optimizer_step :: "('p, 's, 'x) learner \<Rightarrow> ('p, 's) optimizer \<Rightarrow> ('p, 's) optimizer" where
  "optimizer_step L st =
     (case grad st of
        None \<Rightarrow> st
      | Some g \<Rightarrow> (let r = descent L (base_state st) (params st) g
                   in st\<lparr>params := snd r, base_state := fst r\<rparr>))"

text \<open>The effect of one call of a training step, and of its calls in order.\<close>

fun exec :: "('p, 's, 'x) learner \<Rightarrow> 'x event \<Rightarrow> ('p, 's) optimizer \<Rightarrow> ('p, 's) optimizer" where
  "exec L (Forward x b f) st = st\<lparr>last_loss_grad := Some (loss_grad L b f (params st) x)\<rparr>"
| "exec L Mse_loss st = st"
| "exec L (Log s) st = st"
| "exec L Manual_backward st =
     (case last_loss_grad st of
        None \<Rightarrow> st
      | Some g \<Rightarrow> st\<lparr>grad := Some (backward_into L (grad st) g)\<rparr>)"
| "exec L (First_step zero_grad) st = first_step L zero_grad st"
| "exec L Apply_disable_bn st = st"
| "exec L (Second_step zero_grad) st = second_step L zero_grad st"
| "exec L Optimizer_step st = optimizer_step L st"

definition run_calls :: "('p, 's, 'x) learner \<Rightarrow> 'x event list \<Rightarrow> ('p, 's) optimizer \<Rightarrow> ('p, 's) optimizer" where
  "run_calls L evs st = fold (exec L) evs st"

text \<open>
  The quantities of one sharpness-aware step from the optimizer state \<open>st\<close>: the batch
  as the forward passes receive it, the gradient stored after the first backward pass,
  the perturbed parameters, and the gradient of the loss at the perturbed parameters
  with the backbone as the freeze leaves it.
\<close>

definition step_input :: "'x LitI3DFC \<Rightarrow> 'x \<Rightarrow> 'x" where
  "step_input self x = (case train_transform self of None \<Rightarrow> x | Some t \<Rightarrow> t x)"

definition first_gradient ::
  "('p, 's, 'x) learner \<Rightarrow> 'x LitI3DFC \<Rightarrow> 'x \<Rightarrow> ('p, 's) optimizer \<Rightarrow> 'p" where
  "first_gradient L self x st =
     backward_into L (grad st)
       (loss_grad L (train_mode True (backbone self)) (train_mode True (minifc self))
          (params st) (step_input self x))"

definition perturbed_params ::
  "('p, 's, 'x) learner \<Rightarrow> 'x LitI3DFC \<Rightarrow> 'x \<Rightarrow> ('p, 's) optimizer \<Rightarrow> 'p" where
  "perturbed_params L self x st = ascent L (params st) (first_gradient L self x st)"

definition second_gradient ::
  "('p, 's, 'x) learner \<Rightarrow> 'x LitI3DFC \<Rightarrow> 'x \<Rightarrow> ('p, 's) optimizer \<Rightarrow> 'p" where
  "second_gradient L self x st =
     loss_grad L (apply_fn disable_bn (train_mode True (backbone self)))
       (train_mode True (minifc self)) (perturbed_params L self x st) (step_input self x)"

section \<open>The experiment fan-out\<close>

text \<open>\<open>str\<close> of a Python integer\<close>

definition digit_char :: "nat \<Rightarrow> char" where
  "digit_char n = ''0123456789'' ! n"

fun str_nat :: "nat \<Rightarrow> string" where
  "str_nat n = (if n < 10 then [digit_char n] else str_nat (n div 10) @ [digit_char (n mod 10)])"

declare str_nat.simps [simp del]

definition str_int :: "int \<Rightarrow> string" where
  "str_int i = (if i < 0 then CHR ''-'' # str_nat (nat (- i)) else str_nat (nat i))"

text \<open>\<open>s.split(c)\<close> for a separator of one character\<close>

fun split_chr :: "char \<Rightarrow> string \<Rightarrow> string list" where
  "split_chr c [] = [[]]"
| "split_chr c (x # xs) =
     (if x = c then [] # split_chr c xs
      else (case split_chr c xs of [] \<Rightarrow> [[x]] | w # ws \<Rightarrow> (x # w) # ws))"

text \<open>\<open>xs[i]\<close> for an index that is not negative\<close>

definition index :: "'a list \<Rightarrow> nat \<Rightarrow> error + 'a" where
  "index xs i = (if i < length xs then Inr (xs ! i) else Inl IndexError)"

text \<open>
  \<open>itertools.cycle\<close>: the elements of the iterable are handed out and saved; once the
  iterable is used up the saved ones are repeated, for ever.  Nothing to repeat ends
  the iteration.
\<close>

record 'a cycle =
  source :: "'a list"
  saved :: "'a list"
  pos :: nat

definition cycle :: "'a list \<Rightarrow> 'a cycle" where
  "cycle xs = \<lparr>source = xs, saved = [], pos = 0\<rparr>"

definition next_cycle :: "'a cycle \<Rightarrow> error + ('a \<times> 'a cycle)" where
  "next_cycle c =
     (case source c of
        v # vs \<Rightarrow> Inr (v, c\<lparr>source := vs, saved := saved c @ [v]\<rparr>)
      | [] \<Rightarrow>
          (if saved c = [] then Inl StopIteration
           else Inr (saved c ! pos c, c\<lparr>pos := (pos c + 1) mod length (saved c)\<rparr>)))"

datatype pyval = PyStr string | PyInt int | PyBool bool | PyFloat real

record task =
  task_name :: string
  task_id :: string
  parent :: string
  tags :: "string list"
  parameters :: "string \<rightharpoonup> pyval"

definition rois :: "string list" where
  "rois = [''LOC'', ''FFA'', ''STS'', ''EBA'', ''PPA'', ''V1'', ''V2'', ''V3'', ''V4'']"

definition available_devices :: "(string \<times> int list) list" where
  "available_devices = [(''16'', [0, 1])]"

definition queue_names_of :: "(string \<times> int list) list \<Rightarrow> string list" where
  "queue_names_of devices = concat (map (\<lambda>(k, vs). map (\<lambda>v. k @ ''-'' @ str_int v) vs) devices)"

definition queue_names :: "string list" where
  "queue_names = queue_names_of available_devices"

definition pathways :: "string list" where
  "pathways = [''topdown'', ''none'']"

definition layers :: string where
  "layers = ''x1,x2,x3,x4''"

text \<open>
  \<open>Task.clone\<close>: the service copies the template under a new name and identifier; the
  identifier it hands out is the parameter \<open>new_id\<close>.
\<close>

definition clone :: "task \<Rightarrow> string \<Rightarrow> string \<Rightarrow> string \<Rightarrow> task" where
  "clone source_task new_name new_parent new_id =
     source_task\<lparr>task_name := new_name, task_id := new_id, parent := new_parent\<rparr>"

definition add_tags :: "string list \<Rightarrow> task \<Rightarrow> task" where
  "add_tags ts t = t\<lparr>tags := tags t @ ts\<rparr>"

definition overwrite :: "string \<Rightarrow> string \<Rightarrow> string \<Rightarrow> (string \<rightharpoonup> pyval) \<Rightarrow> (string \<rightharpoonup> pyval)" where
  "overwrite roi pathway gpus ps =
     ps(''Args/roi'' \<mapsto> PyStr roi,
        ''Args/batch_size'' \<mapsto> PyInt 32,
        ''Args/num_layers'' \<mapsto> PyInt 1,
        ''Args/conv_size'' \<mapsto> PyInt 256,
        ''Args/layer_hidden'' \<mapsto> PyInt 2048,
        ''Args/debug'' \<mapsto> PyBool False,
        ''Args/early_stop_epochs'' \<mapsto> PyInt 5,
        ''Args/gpus'' \<mapsto> PyStr gpus,
        ''Args/x1_pooling_mode'' \<mapsto> PyStr ''spp'',
        ''Args/x2_pooling_mode'' \<mapsto> PyStr ''spp'',
        ''Args/x3_pooling_mode'' \<mapsto> PyStr ''spp'',
        ''Args/x4_pooling_mode'' \<mapsto> PyStr ''spp'',
        ''Args/backbone_type'' \<mapsto> PyStr ''all'',
        ''Args/fc_fusion'' \<mapsto> PyStr ''concat'',
        ''Args/pyramid_layers'' \<mapsto> PyStr layers,
        ''Args/pathways'' \<mapsto> PyStr pathway,
        ''Args/aux_loss_weight'' \<mapsto> PyFloat 0,
        ''Args/val_check_interval'' \<mapsto> PyFloat (1 / 2),
        ''Args/save_checkpoints'' \<mapsto> PyBool True,
        ''Args/predictions_dir'' \<mapsto>
           PyStr (''/home/huze/.cache/predictions/v2_pyramid_'' @ pathway @ ''_'' @ layers @ ''/''))"

text \<open>
  The state of the script: the round-robin iterator, and what has been enqueued at the
  service so far, each task with the name of its queue, oldest first.
\<close>

record manager =
  queues_buffer :: "string cycle"
  enqueued :: "(task \<times> string) list"

text \<open>One pass of the inner loop body.\<close>

definition launch :: "task \<Rightarrow> (nat \<Rightarrow> string) \<Rightarrow> string \<Rightarrow> string \<Rightarrow> manager \<Rightarrow> error + manager" where
  "launch template_task fresh_id pathway roi st =
     (case next_cycle (queues_buffer st) of
        Inl e \<Rightarrow> Inl e
      | Inr (queue, qb) \<Rightarrow>
          (let cloned_task = clone template_task
                 (task_name template_task @ '' '' @ roi @ '' '' @ pathway)
                 (task_id template_task) (fresh_id (length (enqueued st)));
               cloned_task = add_tags [roi, pathway, ''pyramid'', layers] cloned_task
           in case index (split_chr CHR ''-'' queue) 1 of
                Inl e \<Rightarrow> Inl e
              | Inr gpus \<Rightarrow>
                  (let cloned_task_parameters = overwrite roi pathway gpus (parameters cloned_task);
                       cloned_task = cloned_task\<lparr>parameters := cloned_task_parameters\<rparr>
                   in Inr (st\<lparr>queues_buffer := qb,
                              enqueued := enqueued st @ [(cloned_task, queue)]\<rparr>))))"

fun for_rois :: "task \<Rightarrow> (nat \<Rightarrow> string) \<Rightarrow> string \<Rightarrow> string list \<Rightarrow> manager \<Rightarrow> error + manager" where
  "for_rois template_task fresh_id pathway [] st = Inr st"
| "for_rois template_task fresh_id pathway (roi # rs) st =
     (case launch template_task fresh_id pathway roi st of
        Inl e \<Rightarrow> Inl e
      | Inr st' \<Rightarrow> for_rois template_task fresh_id pathway rs st')"

fun for_pathways :: "task \<Rightarrow> (nat \<Rightarrow> string) \<Rightarrow> string list \<Rightarrow> string list \<Rightarrow> manager \<Rightarrow> error + manager" where
  "for_pathways template_task fresh_id [] rs st = Inr st"
| "for_pathways template_task fresh_id (pathway # ps) rs st =
     (case for_rois template_task fresh_id pathway rs st of
        Inl e \<Rightarrow> Inl e
      | Inr st' \<Rightarrow> for_pathways template_task fresh_id ps rs st')"

definition start_tasks :: "task \<Rightarrow> (nat \<Rightarrow> string) \<Rightarrow> error + manager" where
  "start_tasks template_task fresh_id =
     for_pathways template_task fresh_id pathways rois
       \<lparr>queues_buffer = cycle queue_names, enqueued = []\<rparr>"

text \<open>What was enqueued, reduced to region, pathway, device string and queue.\<close>

definition job_summary :: "task \<times> string \<Rightarrow> pyval option \<times> pyval option \<times> pyval option \<times> string" where
  "job_summary j =
     (parameters (fst j) ''Args/roi'', parameters (fst j) ''Args/pathways'',
      parameters (fst j) ''Args/gpus'', snd j)"

text \<open>The tasks the script has enqueued when it ends; none if it stops on an error.\<close>

definition submitted :: "task \<Rightarrow> (nat \<Rightarrow> string) \<Rightarrow> (task \<times> string) list" where
  "submitted template_task fresh_id =
     (case start_tasks template_task fresh_id of Inl e \<Rightarrow> [] | Inr st \<Rightarrow> enqueued st)"

text \<open>The naming convention: device group, hyphen, device index.\<close>

definition follows_convention :: "(string \<times> int list) list \<Rightarrow> string \<Rightarrow> bool" where
  "follows_convention devices q =
     list_ex (\<lambda>(k, vs). list_ex (\<lambda>v. q = k @ ''-'' @ str_int v) vs) devices"

text \<open>The device string of a job is the second hyphen-separated field of its queue name.\<close>

definition gpus_of_queue :: "string \<Rightarrow> pyval option \<Rightarrow> bool" where
  "gpus_of_queue q g =
     (case index (split_chr CHR ''-'' q) 1 of Inl e \<Rightarrow> False | Inr s \<Rightarrow> g = Some (PyStr s))"

section \<open>Properties of the correlation metric\<close>

subsection \<open>Shapes and columns\<close>

lemma shape1_tensor: "is_tensor2 n d x \<Longrightarrow> 0 < n \<Longrightarrow> shape1 x = d"
  by (cases x) (auto simp: is_tensor2_def shape1_def)

lemma length_column: "length (column x j) = length x"
  by (simp add: column_def)

lemma column_sub_row:
  "is_tensor2 n d x \<Longrightarrow> length m = d \<Longrightarrow> j < d \<Longrightarrow>
   column (sub_row x m) j = map (\<lambda>v. v - m ! j) (column x j)"
  by (auto simp: is_tensor2_def column_def sub_row_def list_all_iff)

lemma is_tensor2_sub_row:
  "is_tensor2 n d x \<Longrightarrow> length m = d \<Longrightarrow> is_tensor2 n d (sub_row x m)"
  by (auto simp: is_tensor2_def sub_row_def list_all_iff)

lemma is_tensor2_mul_t:
  "is_tensor2 n d a \<Longrightarrow> is_tensor2 n d b \<Longrightarrow> is_tensor2 n d (mul_t a b)"
  by (auto simp: is_tensor2_def mul_t_def list_all_iff)
     (metis min.idem set_zip_leftD set_zip_rightD)

lemma column_mul_t:
  assumes "is_tensor2 n d a" "is_tensor2 n d b" "j < d"
  shows "column (mul_t a b) j = map2 (*) (column a j) (column b j)"
proof -
  have len: "length a = length b"
    using assms by (simp add: is_tensor2_def)
  from len assms show ?thesis
    by (induction a b arbitrary: n rule: list_induct2)
       (auto simp: is_tensor2_def column_def mul_t_def)
qed

lemma length_mean0: "is_tensor2 n d x \<Longrightarrow> 0 < n \<Longrightarrow> length (mean0 x) = d"
  by (simp add: mean0_def shape1_tensor)

lemma mean0_nth:
  "is_tensor2 n d x \<Longrightarrow> 0 < n \<Longrightarrow> j < d \<Longrightarrow> mean0 x ! j = mean_l (column x j)"
  by (simp add: mean0_def shape1_tensor mean_l_def shape0_def length_column)

lemma map2_map_map: "map2 f (map g xs) (map h ys) = map2 (\<lambda>a b. f (g a) (h b)) xs ys"
  by (auto simp: zip_map_map)

lemma vectorized_correlation_columns:
  assumes x: "is_tensor2 n d x" and y: "is_tensor2 n d y" and n: "0 < n"
  shows "vectorized_correlation x y = map (\<lambda>j. corr_col n (column x j) (column y j)) [0..<d]"
proof -
  let ?cx = "sub_row x (mean0 x)" and ?cy = "sub_row y (mean0 y)"
  have tx: "is_tensor2 n d ?cx" and ty: "is_tensor2 n d ?cy"
    using x y n by (simp_all add: is_tensor2_sub_row length_mean0)
  have tm: "is_tensor2 n d (mul_t ?cx ?cy)"
    using tx ty by (rule is_tensor2_mul_t)
  have cov: "sum0 (mul_t ?cx ?cy) =
      map (\<lambda>j. sum_list (map2 (\<lambda>a b. (a - mean_l (column x j)) * (b - mean_l (column y j)))
                      (column x j) (column y j))) [0..<d]"
    using x y n tx ty tm
    by (simp add: sum0_def shape1_tensor column_mul_t column_sub_row length_mean0 mean0_nth
        map2_map_map)
  have sx: "add_scalar (std0 x) eps = map (\<lambda>j. fadd (std_col (column x j)) (Some eps)) [0..<d]"
    using x n by (simp add: add_scalar_def std0_def shape1_tensor)
  have sy: "add_scalar (std0 y) eps = map (\<lambda>j. fadd (std_col (column y j)) (Some eps)) [0..<d]"
    using y n by (simp add: add_scalar_def std0_def shape1_tensor)
  have n0: "shape0 x = n"
    using x by (simp add: is_tensor2_def shape0_def)
  show ?thesis
    unfolding vectorized_correlation_def Let_def ravel_def cov sx sy n0
    by (simp add: div_f_def mul_f_def div_scalar_def corr_col_def map2_map_map zip_same_conv_map)
qed


lemma sum_list_squares_nonneg:
  fixes xs :: "'a list" and f :: "'a \<Rightarrow> real"
  shows "0 \<le> sum_list (map (\<lambda>v. (f v)\<^sup>2) xs)"
  by (rule sum_list_nonneg) auto

lemma sample_cov_self:
  "sample_cov c c = sum_list (map (\<lambda>v. (v - mean_l c)\<^sup>2) c) / (real (length c) - 1)"
  by (simp add: sample_cov_def zip_same_conv_map power2_eq_square o_def)

lemma sample_cov_self_nonneg: "2 \<le> length c \<Longrightarrow> 0 \<le> sample_cov c c"
  unfolding sample_cov_self by (intro divide_nonneg_nonneg sum_list_squares_nonneg) simp

lemma sample_std_nonneg: "2 \<le> length c \<Longrightarrow> 0 \<le> sample_std c"
  by (simp add: sample_std_def sample_cov_self_nonneg)

lemma std_col_sample_std: "2 \<le> length c \<Longrightarrow> std_col c = Some (sample_std c)"
  by (simp add: std_col_def sample_std_def sample_cov_self mean_l_def)

lemma std_col_short: "length c \<le> 1 \<Longrightarrow> std_col c = None"
  by (simp add: std_col_def)

lemma eps_pos: "0 < eps"
  by (simp add: eps_def)

lemma denominator_pos:
  assumes "2 \<le> length cx" "2 \<le> length cy"
  shows "0 < (sample_std cx + eps) * (sample_std cy + eps)"
proof -
  have "0 < sample_std cx + eps" "0 < sample_std cy + eps"
    using sample_std_nonneg [OF assms(1)] sample_std_nonneg [OF assms(2)] eps_pos by simp_all
  then show ?thesis by (rule mult_pos_pos)
qed

lemma corr_col_pearson:
  assumes "length cx = n" "length cy = n" "2 \<le> n"
  shows "corr_col n cx cy = Some (pearson_eps cx cy)"
proof -
  have "0 < (sample_std cx + eps) * (sample_std cy + eps)"
    using assms by (intro denominator_pos) simp_all
  then have "(sample_std cx + eps) * (sample_std cy + eps) \<noteq> 0"
    by (rule less_imp_neq [THEN not_sym])
  moreover have "real_of_int (int n - 1) = real n - 1" by simp
  moreover have "real n - 1 \<noteq> 0" using assms by simp
  ultimately show ?thesis
    using assms
    by (simp add: corr_col_def std_col_sample_std pearson_eps_def sample_cov_def
        del: of_int_diff)
qed



lemma vectorized_correlation_pearson:
  assumes "is_tensor2 n d x" "is_tensor2 n d y" "2 \<le> n"
  shows "vectorized_correlation x y =
         map (\<lambda>j. Some (pearson_eps (column x j) (column y j))) [0..<d]"
proof -
  have "\<And>j. j < d \<Longrightarrow> corr_col n (column x j) (column y j)
                      = Some (pearson_eps (column x j) (column y j))"
    using assms by (intro corr_col_pearson) (simp_all add: length_column is_tensor2_def)
  then show ?thesis
    using assms by (simp add: vectorized_correlation_columns)
qed

lemma foldr_fadd_Some:
  "foldr fadd (map Some rs) (Some 0) = Some (sum_list rs)"
  by (induction rs) simp_all

lemma mean_f_Some:
  "rs \<noteq> [] \<Longrightarrow> mean_f (map Some rs) = Some (mean_l rs)"
  by (simp add: mean_f_def foldr_fadd_Some mean_l_def)

lemma mean_f_Nil: "mean_f [] = None"
  by (simp add: mean_f_def)

lemma validation_epoch_end_nonempty:
  "outs \<noteq> [] \<Longrightarrow>
   validation_epoch_end outs =
     Inr [(''val_corr'', mean_f (vectorized_correlation (concat (map step_out outs))
                                                     (concat (map step_y outs))))]"
  by (simp add: validation_epoch_end_def cat0_def)





subsection \<open>The metric is the Pearson coefficient of each column\<close>

text \<open>
  Claim C1.  For predictions \<open>x\<close> and targets \<open>y\<close> of one shape \<open>(n, d)\<close> with at least two
  rows, \<open>vectorized_correlation\<close> returns one value for each of the \<open>d\<close> columns: the sum
  of the centred products over the batch, divided by \<open>n - 1\<close>, divided by the product of
  the two sample standard deviations, each with \<open>1e-8\<close> added.  \<open>validation_epoch_end\<close>
  logs the mean of these values over the columns as \<open>val_corr\<close>, the quantity that
  checkpointing and early stopping watch in mode \<open>max\<close>.
\<close>

theorem vectorized_correlation_is_pearson:
  assumes "is_tensor2 n d x" "is_tensor2 n d y" "2 \<le> n"
  shows "vectorized_correlation x y =
           map (\<lambda>j. Some (pearson_eps (column x j) (column y j))) [0..<d]
       \<and> (outs \<noteq> [] \<and> concat (map step_out outs) = x \<and> concat (map step_y outs) = y \<longrightarrow>
            validation_epoch_end outs =
              Inr [(''val_corr'',
                    if d = 0 then None
                    else Some (mean_l (map (\<lambda>j. pearson_eps (column x j) (column y j)) [0..<d])))])
       \<and> monitor checkpoint_callback = ''val_corr'' \<and> mode checkpoint_callback = Mode_max
       \<and> monitor early_stop_callback = ''val_corr'' \<and> mode early_stop_callback = Mode_max"
proof -
  let ?ps = "map (\<lambda>j. pearson_eps (column x j) (column y j)) [0..<d]"
  have vc: "vectorized_correlation x y = map Some ?ps"
    using assms by (simp add: vectorized_correlation_pearson o_def)
  have m: "mean_f (vectorized_correlation x y) = (if d = 0 then None else Some (mean_l ?ps))"
  proof (cases "d = 0")
    case True
    then show ?thesis unfolding vc by (simp add: mean_f_Nil)
  next
    case False
    then have "?ps \<noteq> []" by simp
    then have "mean_f (map Some ?ps) = Some (mean_l ?ps)" by (rule mean_f_Some)
    with False show ?thesis unfolding vc by simp
  qed
  have "validation_epoch_end outs = Inr [(''val_corr'', if d = 0 then None else Some (mean_l ?ps))]"
    if "outs \<noteq> []" "concat (map step_out outs) = x" "concat (map step_y outs) = y"
    using that m by (simp add: validation_epoch_end_nonempty)
  moreover have "vectorized_correlation x y =
           map (\<lambda>j. Some (pearson_eps (column x j) (column y j))) [0..<d]"
    using assms by (rule vectorized_correlation_pearson)
  ultimately show ?thesis
    by (simp add: checkpoint_callback_def early_stop_callback_def)
qed

theorem vectorized_correlation_is_pearson_witness:
  "is_tensor2 3 2 [[0, 1], [1, 3], [2, 7::real]] \<and> is_tensor2 3 2 [[0, 2], [1, 1], [2, 0::real]]
   \<and> (2::nat) \<le> 3
   \<and> vectorized_correlation [[0, 1], [1, 3], [2, 7]] [[0, 2], [1, 1], [2, 0]] =
       [Some (pearson_eps [0, 1, 2] [0, 1, 2]), Some (pearson_eps [1, 3, 7] [2, 1, 0])]
   \<and> validation_epoch_end
        [\<lparr>step_out = [[0, 1], [1, 3]], step_y = [[0, 2], [1, 1]]\<rparr>,
         \<lparr>step_out = [[2, 7]], step_y = [[2, 0]]\<rparr>] =
       Inr [(''val_corr'',
             Some ((pearson_eps [0, 1, 2] [0, 1, 2] + pearson_eps [1, 3, 7] [2, 1, 0]) / 2))]"
proof -
  have h: "is_tensor2 3 2 [[0, 1], [1, 3], [2, 7::real]]" "is_tensor2 3 2 [[0, 2], [1, 1], [2, 0::real]]"
    "(2::nat) \<le> 3"
    by (simp_all add: is_tensor2_def)
  show ?thesis
    using h vectorized_correlation_is_pearson [OF h, of "[\<lparr>step_out = [[0, 1], [1, 3]], step_y = [[0, 2], [1, 1]]\<rparr>,
         \<lparr>step_out = [[2, 7]], step_y = [[2, 0]]\<rparr>]"]
    by (simp add: column_def mean_l_def upt_conv_Cons)
qed

subsection \<open>Fewer than two rows\<close>



subsection \<open>Predictions equal to the targets\<close>




section \<open>Properties of the training step\<close>

lemma modules_train_mode:
  "list_all (\<lambda>m. training m = b) (modules (train_mode b m))"
  by (induction m) (auto simp: list_all_iff)

lemma train_mode_twice: "train_mode b (train_mode c m) = train_mode b m"
  by (induction m) (auto simp: o_def)

lemma train_mode_disable_bn: "train_mode b (disable_bn m) = train_mode b m"
  by (induction m) (auto simp: o_def train_mode_twice)

lemma disable_bn_idem: "disable_bn (disable_bn m) = disable_bn m"
  by (induction m) (auto simp: o_def train_mode_twice)

lemma apply_fn_disable_bn: "apply_fn disable_bn m = disable_bn m"
proof (induction m)
  case (Module k t cs)
  then have "map (apply_fn disable_bn) cs = map disable_bn cs"
    by simp
  then show ?case
    by (simp add: o_def train_mode_disable_bn disable_bn_idem)
qed

lemma modules_disable_bn:
  "list_all (\<lambda>m. kind m = BatchNorm3d \<longrightarrow> \<not> training m) (modules (disable_bn m))"
proof (induction m)
  case (Module k t cs)
  show ?case
  proof (cases "k = BatchNorm3d")
    case True
    have "list_all (\<lambda>m. training m = False) (modules (train_mode False (Module k t cs)))"
      by (rule modules_train_mode)
    then show ?thesis using True by (simp add: list_all_iff)
  next
    case False
    with Module show ?thesis by (auto simp: list_all_iff)
  qed
qed

lemma disable_bn_no_bn3d:
  "list_all (\<lambda>m. kind m \<noteq> BatchNorm3d) (modules m) \<Longrightarrow> disable_bn m = m"
  by (induction m) (auto simp: list_all_iff map_idI)

lemma trains_outside_bn3d_eval: "trains_outside_bn3d True (train_mode False m)"
  by (induction m) (auto simp: list_all_iff)

lemma trains_outside_bn3d_disable_bn:
  "trains_outside_bn3d False (disable_bn (train_mode True m))"
proof (induction m)
  case (Module k t cs)
  show ?case
  proof (cases "k = BatchNorm3d")
    case True
    then show ?thesis
      by (simp add: list_all_iff train_mode_twice trains_outside_bn3d_eval)
  next
    case False
    with Module show ?thesis by (simp add: list_all_iff)
  qed
qed

lemma run_calls_asm:
  "run_calls L
     [Forward v b f, Mse_loss, Log s, Manual_backward, First_step True, Apply_disable_bn,
      Forward v b' f, Mse_loss, Manual_backward, Second_step True] st =
   st\<lparr>params := snd (descent L (base_state st) (params st)
                      (loss_grad L b' f
                         (ascent L (params st) (backward_into L (grad st) (loss_grad L b f (params st) v))) v)),
      base_state := fst (descent L (base_state st) (params st)
                      (loss_grad L b' f
                         (ascent L (params st) (backward_into L (grad st) (loss_grad L b f (params st) v))) v)),
      grad := None,
      last_loss_grad := Some (loss_grad L b' f
                         (ascent L (params st) (backward_into L (grad st) (loss_grad L b f (params st) v))) v),
      old_p := Some (params st)\<rparr>"
  by (simp add: run_calls_def first_step_def second_step_def backward_into_def Let_def)

lemma run_calls_plain:
  "run_calls L [Forward v b f, Mse_loss, Log s, Manual_backward, Optimizer_step] st =
   st\<lparr>params := snd (descent L (base_state st) (params st)
                      (backward_into L (grad st) (loss_grad L b f (params st) v))),
      base_state := fst (descent L (base_state st) (params st)
                      (backward_into L (grad st) (loss_grad L b f (params st) v))),
      grad := Some (backward_into L (grad st) (loss_grad L b f (params st) v)),
      last_loss_grad := Some (loss_grad L b f (params st) v)\<rparr>"
  by (simp add: run_calls_def optimizer_step_def Let_def)

lemma training_step_events:
  "snd (training_step self x) =
     (if asm self then
        [Forward (case train_transform self of None \<Rightarrow> x | Some t \<Rightarrow> t x)
           (train_mode True (backbone self)) (train_mode True (minifc self)),
         Mse_loss, Log ''train_mse_loss'', Manual_backward,
         First_step True,
         Apply_disable_bn,
         Forward (case train_transform self of None \<Rightarrow> x | Some t \<Rightarrow> t x)
           (disable_bn (train_mode True (backbone self))) (train_mode True (minifc self)),
         Mse_loss, Manual_backward,
         Second_step True]
      else
        [Forward (case train_transform self of None \<Rightarrow> x | Some t \<Rightarrow> t x)
           (train_mode True (backbone self)) (train_mode True (minifc self)),
         Mse_loss, Log ''train_mse_loss'', Manual_backward,
         Optimizer_step])"
  by (simp add: training_step_def train_def shared_train_val_def Let_def apply_fn_disable_bn)

lemma sequential_transforms:
  "sequential run DataAugmentation_transforms g x =
     (case run (RandomHorizontalFlip3D (1 / 2)) g x of
        (x1, g1) \<Rightarrow> run (RandomRotation3D 15 (1 / 2)) g1 x1)"
  by (simp add: DataAugmentation_transforms_def split: prod.splits)

text \<open>
  Claim C8.  \<open>DataAugmentation\<close> holds a horizontal flip with probability \<open>0.5\<close> followed by
  a rotation of up to \<open>15\<close> degrees with probability \<open>0.5\<close>, and applies them in this order
  with gradients disabled.  The module built by \<open>__init__\<close> has no \<open>train_transform\<close>, a
  training step does not set one, and so every forward pass of a training step receives
  the batch it was given.
\<close>

theorem augmentation_disabled_in_training:
  "DataAugmentation_transforms = [RandomHorizontalFlip3D (1 / 2), RandomRotation3D 15 (1 / 2)]
   \<and> DataAugmentation_forward run g v =
       (case run (RandomHorizontalFlip3D (1 / 2)) g v of
          (v1, g1) \<Rightarrow>
            (case run (RandomRotation3D 15 (1 / 2)) g1 v1 of
               (v2, g2) \<Rightarrow> (\<lparr>value_of = v2, requires_grad = False\<rparr>, g2)))
   \<and> train_transform (LitI3DFC_init bb a fc :: 'x LitI3DFC) = None
   \<and> forward_inputs (snd (training_step (LitI3DFC_init bb a fc) (x :: 'x))) = (if a then [x, x] else [x])
   \<and> train_transform (fst (training_step self x)) = train_transform self
   \<and> (train_transform self = None \<longrightarrow>
        forward_inputs (snd (training_step self x)) = (if asm self then [x, x] else [x]))"
proof -
  have 1: "DataAugmentation_forward run g v =
       (case run (RandomHorizontalFlip3D (1 / 2)) g v of
          (v1, g1) \<Rightarrow>
            (case run (RandomRotation3D 15 (1 / 2)) g1 v1 of
               (v2, g2) \<Rightarrow> (\<lparr>value_of = v2, requires_grad = False\<rparr>, g2)))"
    by (simp add: DataAugmentation_forward_def sequential_transforms split: prod.splits)
  have 2: "forward_inputs (snd (training_step (LitI3DFC_init bb a fc) x)) = (if a then [x, x] else [x])"
    by (simp add: training_step_events LitI3DFC_init_def)
  have 3: "train_transform (fst (training_step self x)) = train_transform self"
    by (simp add: training_step_def train_def Let_def)
  have 4: "forward_inputs (snd (training_step self x)) = (if asm self then [x, x] else [x])"
    if "train_transform self = None"
    using that by (simp add: training_step_events)
  show ?thesis
    using 1 2 3 4 by (simp add: DataAugmentation_transforms_def LitI3DFC_init_def)
qed

theorem augmentation_disabled_in_training_witness:
  "train_transform (LitI3DFC_init (Module Other_layer False [Module BatchNorm3d False []]) True
      (Module Other_layer False []) :: nat LitI3DFC) = None
   \<and> forward_inputs (snd (training_step
        (LitI3DFC_init (Module Other_layer False [Module BatchNorm3d False []]) True
           (Module Other_layer False [])) (7::nat))) = [7, 7]"
  using augmentation_disabled_in_training
    [where self = "LitI3DFC_init (Module Other_layer False [Module BatchNorm3d False []]) True
           (Module Other_layer False [])" and x = "7::nat"
       and run = "\<lambda>(t::aug3d) (r::nat) (u::nat). (u, r)" and g = "0::nat" and v = "0::nat"
       and bb = "Module Other_layer False []" and a = True and fc = "Module Other_layer False []"]
  by (simp add: LitI3DFC_init_def)

text \<open>
  Claim C5, as stated, fails in one of its sub-steps: what a training step does between
  the two optimizer steps does not disable the running-statistics updates of batch
  normalisation as such.  In the second forward pass of the module below, which runs
  after the freeze, the \<open>BatchNorm2d\<close> of the backbone and the \<open>BatchNorm1d\<close> of the head
  still update their running statistics; only the \<open>BatchNorm3d\<close> of the backbone does not.
\<close>

theorem training_step_sharpness_aware_counterexample:
  "asm (LitI3DFC_init (Module Other_layer False [Module BatchNorm3d False [], Module BatchNorm2d False []])
          True (Module Other_layer False [Module BatchNorm1d False []]) :: nat LitI3DFC)
   \<and> snd (training_step
        (LitI3DFC_init (Module Other_layer False [Module BatchNorm3d False [], Module BatchNorm2d False []])
          True (Module Other_layer False [Module BatchNorm1d False []])) (7::nat)) ! 5 = Apply_disable_bn
   \<and> snd (training_step
        (LitI3DFC_init (Module Other_layer False [Module BatchNorm3d False [], Module BatchNorm2d False []])
          True (Module Other_layer False [Module BatchNorm1d False []])) (7::nat)) ! 6
       = Forward 7 (Module Other_layer True [Module BatchNorm3d False [], Module BatchNorm2d True []])
                   (Module Other_layer True [Module BatchNorm1d True []])
   \<and> updates_running_stats (Module BatchNorm2d True [])
   \<and> updates_running_stats (Module BatchNorm1d True [])
   \<and> \<not> updates_running_stats (Module BatchNorm3d False [])"
  by (simp add: training_step_events LitI3DFC_init_def updates_running_stats_def is_batchnorm_def)

text \<open>
  Claim C5, amended.  With \<open>asm\<close> set, a training step makes exactly these calls, in this
  order: forward pass and loss (logged), backward pass, the optimizer's first step,
  the freeze of the \<open>BatchNorm3d\<close> modules of the backbone, a second forward pass and
  loss (not logged), a second backward pass, and the optimizer's second step.  In the
  first forward pass every module of the backbone is in training mode; in the second,
  a module of the backbone is in training mode exactly when it is neither a
  \<open>BatchNorm3d\<close> nor below one.  On the parameters the calls have this effect: the
  first step moves them along the gradient of the first loss, the second loss is
  computed at these perturbed parameters with the backbone frozen in this way, and the
  second step applies the update of the base optimizer, with the gradient of that
  second loss alone, to the parameters as they were before the perturbation.  Without
  \<open>asm\<close> there is one forward pass, one backward pass and one step of the base optimizer
  with the gradient of that loss.
\<close>

theorem training_step_sharpness_aware:
  "snd (training_step self x) =
     (if asm self then
        [Forward (step_input self x)
           (train_mode True (backbone self)) (train_mode True (minifc self)),
         Mse_loss, Log ''train_mse_loss'', Manual_backward,
         First_step True,
         Apply_disable_bn,
         Forward (step_input self x)
           (apply_fn disable_bn (train_mode True (backbone self))) (train_mode True (minifc self)),
         Mse_loss, Manual_backward,
         Second_step True]
      else
        [Forward (step_input self x)
           (train_mode True (backbone self)) (train_mode True (minifc self)),
         Mse_loss, Log ''train_mse_loss'', Manual_backward,
         Optimizer_step])
   \<and> list_all training (modules (train_mode True (backbone self)))
   \<and> trains_outside_bn3d False (apply_fn disable_bn (train_mode True (backbone self)))
   \<and> list_all (\<lambda>m. kind m = BatchNorm3d \<longrightarrow> \<not> updates_running_stats m)
        (modules (apply_fn disable_bn (train_mode True (backbone self))))
   \<and> (asm self \<longrightarrow>
        run_calls L (snd (training_step self x)) st =
          st\<lparr>params := snd (descent L (base_state st) (params st) (second_gradient L self x st)),
             base_state := fst (descent L (base_state st) (params st) (second_gradient L self x st)),
             grad := None,
             last_loss_grad := Some (second_gradient L self x st),
             old_p := Some (params st)\<rparr>)
   \<and> (\<not> asm self \<longrightarrow>
        run_calls L (snd (training_step self x)) st =
          st\<lparr>params := snd (descent L (base_state st) (params st) (first_gradient L self x st)),
             base_state := fst (descent L (base_state st) (params st) (first_gradient L self x st)),
             grad := Some (first_gradient L self x st),
             last_loss_grad :=
               Some (loss_grad L (train_mode True (backbone self)) (train_mode True (minifc self))
                       (params st) (step_input self x))\<rparr>)"
proof -
  have ev: "snd (training_step self x) =
     (if asm self then
        [Forward (step_input self x)
           (train_mode True (backbone self)) (train_mode True (minifc self)),
         Mse_loss, Log ''train_mse_loss'', Manual_backward,
         First_step True,
         Apply_disable_bn,
         Forward (step_input self x)
           (apply_fn disable_bn (train_mode True (backbone self))) (train_mode True (minifc self)),
         Mse_loss, Manual_backward,
         Second_step True]
      else
        [Forward (step_input self x)
           (train_mode True (backbone self)) (train_mode True (minifc self)),
         Mse_loss, Log ''train_mse_loss'', Manual_backward,
         Optimizer_step])"
    by (simp add: training_step_def train_def shared_train_val_def Let_def step_input_def)
  have "list_all (\<lambda>m. training m = True) (modules (train_mode True (backbone self)))"
    by (rule modules_train_mode)
  then have m1: "list_all training (modules (train_mode True (backbone self)))"
    by (simp add: list_all_iff)
  have m2: "trains_outside_bn3d False (apply_fn disable_bn (train_mode True (backbone self)))"
    by (simp add: apply_fn_disable_bn trains_outside_bn3d_disable_bn)
  have "list_all (\<lambda>m. kind m = BatchNorm3d \<longrightarrow> \<not> training m)
           (modules (disable_bn (train_mode True (backbone self))))"
    by (rule modules_disable_bn)
  then have m3: "list_all (\<lambda>m. kind m = BatchNorm3d \<longrightarrow> \<not> updates_running_stats m)
        (modules (apply_fn disable_bn (train_mode True (backbone self))))"
    by (simp add: list_all_iff updates_running_stats_def apply_fn_disable_bn)
  have a: "run_calls L (snd (training_step self x)) st =
          st\<lparr>params := snd (descent L (base_state st) (params st) (second_gradient L self x st)),
             base_state := fst (descent L (base_state st) (params st) (second_gradient L self x st)),
             grad := None,
             last_loss_grad := Some (second_gradient L self x st),
             old_p := Some (params st)\<rparr>" if "asm self"
    using that unfolding ev
    by (simp only: if_True run_calls_asm second_gradient_def perturbed_params_def first_gradient_def)
  have b: "run_calls L (snd (training_step self x)) st =
          st\<lparr>params := snd (descent L (base_state st) (params st) (first_gradient L self x st)),
             base_state := fst (descent L (base_state st) (params st) (first_gradient L self x st)),
             grad := Some (first_gradient L self x st),
             last_loss_grad :=
               Some (loss_grad L (train_mode True (backbone self)) (train_mode True (minifc self))
                       (params st) (step_input self x))\<rparr>" if "\<not> asm self"
    using that unfolding ev
    by (simp only: if_False run_calls_plain first_gradient_def)
  from ev m1 m2 m3 a b show ?thesis by blast
qed

theorem training_step_sharpness_aware_witness:
  "asm (LitI3DFC_init (Module Other_layer False [Module BatchNorm3d False []]) True
          (Module Other_layer False [Module BatchNorm1d False []]) :: nat LitI3DFC)
   \<and> params (run_calls
        \<lparr>loss_grad = (\<lambda>b f w u. if trains_outside_bn3d False b \<and> \<not> list_all training (modules b)
                                  then 3 * w else 2 * w),
         accumulate = (+), ascent = (\<lambda>w g. w + g), descent = (\<lambda>s w g. (Suc s, w - g))\<rparr>
        (snd (training_step
           (LitI3DFC_init (Module Other_layer False [Module BatchNorm3d False []]) True
              (Module Other_layer False [Module BatchNorm1d False []])) (7::nat)))
        \<lparr>params = 1::int, grad = None, last_loss_grad = None, base_state = 0::nat, old_p = None\<rparr>)
       = - 8
   \<and> \<not> asm (LitI3DFC_init (Module Other_layer False [Module BatchNorm3d False []]) False
          (Module Other_layer False [Module BatchNorm1d False []]) :: nat LitI3DFC)
   \<and> params (run_calls
        \<lparr>loss_grad = (\<lambda>b f w u. if trains_outside_bn3d False b \<and> \<not> list_all training (modules b)
                                  then 3 * w else 2 * w),
         accumulate = (+), ascent = (\<lambda>w g. w + g), descent = (\<lambda>s w g. (Suc s, w - g))\<rparr>
        (snd (training_step
           (LitI3DFC_init (Module Other_layer False [Module BatchNorm3d False []]) False
              (Module Other_layer False [Module BatchNorm1d False []])) (7::nat)))
        \<lparr>params = 1::int, grad = None, last_loss_grad = None, base_state = 0::nat, old_p = None\<rparr>)
       = - 1"
proof -
  let ?L = "\<lparr>loss_grad = (\<lambda>b f w (u::nat). if trains_outside_bn3d False b \<and> \<not> list_all training (modules b)
                                  then 3 * w else 2 * (w::int)),
         accumulate = (+), ascent = (\<lambda>w g. w + g), descent = (\<lambda>(s::nat) w g. (Suc s, w - g))\<rparr>"
  let ?st = "\<lparr>params = 1::int, grad = None, last_loss_grad = None, base_state = 0::nat, old_p = None\<rparr>"
  let ?A = "LitI3DFC_init (Module Other_layer False [Module BatchNorm3d False []]) True
          (Module Other_layer False [Module BatchNorm1d False []]) :: nat LitI3DFC"
  let ?B = "LitI3DFC_init (Module Other_layer False [Module BatchNorm3d False []]) False
          (Module Other_layer False [Module BatchNorm1d False []]) :: nat LitI3DFC"
  have a: "asm ?A" and b: "\<not> asm ?B"
    by (simp_all add: LitI3DFC_init_def)
  have ga: "second_gradient ?L ?A 7 ?st = 9"
    by (simp add: second_gradient_def perturbed_params_def first_gradient_def backward_into_def
        step_input_def LitI3DFC_init_def)
  have gb: "first_gradient ?L ?B 7 ?st = 2"
    by (simp add: first_gradient_def backward_into_def step_input_def LitI3DFC_init_def)
  note A = training_step_sharpness_aware [where self = ?A and x = 7 and L = ?L and st = ?st,
      THEN conjunct2, THEN conjunct2, THEN conjunct2, THEN conjunct2, THEN conjunct1,
      rule_format, OF a]
  note B = training_step_sharpness_aware [where self = ?B and x = 7 and L = ?L and st = ?st,
      THEN conjunct2, THEN conjunct2, THEN conjunct2, THEN conjunct2, THEN conjunct2,
      rule_format, OF b]
  have pa: "params (run_calls ?L (snd (training_step ?A 7)) ?st) = - 8"
    unfolding A ga by simp
  have pb: "params (run_calls ?L (snd (training_step ?B 7)) ?st) = - 1"
    unfolding B gb by simp
  from a b pa pb show ?thesis by (intro conjI)
qed

text \<open>
  Claim C10.  With \<open>asm\<close> set, the freeze before the second forward pass reaches the
  \<open>BatchNorm3d\<close> modules of the backbone only.  The regression head is in training mode
  in both forward passes, so each of its batch-normalisation layers updates its running
  statistics in the second pass too.  In the backbone the freeze changes training flags
  only, and afterwards a module is in training mode exactly when it is neither a
  \<open>BatchNorm3d\<close> nor below one; a backbone without \<open>BatchNorm3d\<close> modules is left as it was.
\<close>

theorem disable_bn_backbone_batchnorm3d_only:
  assumes "asm self"
  shows "forward_heads (snd (training_step self x))
           = [train_mode True (minifc self), train_mode True (minifc self)]
       \<and> list_all (\<lambda>m. is_batchnorm m \<longrightarrow> updates_running_stats m)
           (modules (forward_heads (snd (training_step self x)) ! 1))
       \<and> forward_backbones (snd (training_step self x))
           = [train_mode True (backbone self), disable_bn (train_mode True (backbone self))]
       \<and> list_all (\<lambda>m. kind m = BatchNorm3d \<longrightarrow> \<not> updates_running_stats m)
           (modules (forward_backbones (snd (training_step self x)) ! 1))
       \<and> (list_all (\<lambda>m. kind m \<noteq> BatchNorm3d) (modules (backbone self)) \<longrightarrow>
            forward_backbones (snd (training_step self x)) ! 1 = train_mode True (backbone self))
       \<and> minifc (fst (training_step self x)) = train_mode True (minifc self)
       \<and> trains_outside_bn3d False (forward_backbones (snd (training_step self x)) ! 1)
       \<and> train_mode True (forward_backbones (snd (training_step self x)) ! 1)
           = train_mode True (backbone self)
       \<and> backbone (fst (training_step self x)) = forward_backbones (snd (training_step self x)) ! 1"
proof -
  have h: "forward_heads (snd (training_step self x))
           = [train_mode True (minifc self), train_mode True (minifc self)]"
    using assms by (simp add: training_step_events)
  have b: "forward_backbones (snd (training_step self x))
           = [train_mode True (backbone self), disable_bn (train_mode True (backbone self))]"
    using assms by (simp add: training_step_events)
  have "list_all (\<lambda>m. training m = True) (modules (train_mode True (minifc self)))"
    by (rule modules_train_mode)
  then have 1: "list_all (\<lambda>m. is_batchnorm m \<longrightarrow> updates_running_stats m)
           (modules (train_mode True (minifc self)))"
    by (simp add: list_all_iff updates_running_stats_def)
  have "list_all (\<lambda>m. kind m = BatchNorm3d \<longrightarrow> \<not> training m)
           (modules (disable_bn (train_mode True (backbone self))))"
    by (rule modules_disable_bn)
  then have 2: "list_all (\<lambda>m. kind m = BatchNorm3d \<longrightarrow> \<not> updates_running_stats m)
           (modules (disable_bn (train_mode True (backbone self))))"
    by (simp add: list_all_iff updates_running_stats_def)
  have 3: "disable_bn (train_mode True (backbone self)) = train_mode True (backbone self)"
    if "list_all (\<lambda>m. kind m \<noteq> BatchNorm3d) (modules (backbone self))"
  proof -
    have "list_all (\<lambda>m. kind m \<noteq> BatchNorm3d) (modules (train_mode True m))"
      if "list_all (\<lambda>m. kind m \<noteq> BatchNorm3d) (modules m)" for m
      using that by (induction m) (auto simp: list_all_iff)
    with that show ?thesis by (intro disable_bn_no_bn3d) simp
  qed
  have 4: "minifc (fst (training_step self x)) = train_mode True (minifc self)"
    by (simp add: training_step_def train_def Let_def)
  have 5: "trains_outside_bn3d False (disable_bn (train_mode True (backbone self)))"
    by (rule trains_outside_bn3d_disable_bn)
  have 6: "train_mode True (disable_bn (train_mode True (backbone self))) = train_mode True (backbone self)"
    by (simp add: train_mode_disable_bn train_mode_twice)
  have 7: "backbone (fst (training_step self x)) = disable_bn (train_mode True (backbone self))"
    using assms by (simp add: training_step_def train_def Let_def apply_fn_disable_bn)
  show ?thesis
    using 1 2 3 4 5 6 7 by (simp add: h b)
qed

theorem disable_bn_backbone_batchnorm3d_only_witness:
  "asm (LitI3DFC_init (Module Other_layer False [Module BatchNorm3d False [], Module BatchNorm2d False []])
          True (Module Other_layer False [Module BatchNorm1d False []]) :: nat LitI3DFC)
   \<and> forward_heads (snd (training_step
        (LitI3DFC_init (Module Other_layer False [Module BatchNorm3d False [], Module BatchNorm2d False []])
          True (Module Other_layer False [Module BatchNorm1d False []])) (7::nat)))
       = [Module Other_layer True [Module BatchNorm1d True []],
          Module Other_layer True [Module BatchNorm1d True []]]
   \<and> forward_backbones (snd (training_step
        (LitI3DFC_init (Module Other_layer False [Module BatchNorm3d False [], Module BatchNorm2d False []])
          True (Module Other_layer False [Module BatchNorm1d False []])) (7::nat)))
       = [Module Other_layer True [Module BatchNorm3d True [], Module BatchNorm2d True []],
          Module Other_layer True [Module BatchNorm3d False [], Module BatchNorm2d True []]]
   \<and> asm (LitI3DFC_init (Module Other_layer False [Module BatchNorm2d False []])
          True (Module Other_layer False []) :: nat LitI3DFC)
   \<and> list_all (\<lambda>m. kind m \<noteq> BatchNorm3d) (modules (Module Other_layer False [Module BatchNorm2d False []]))
   \<and> forward_backbones (snd (training_step
        (LitI3DFC_init (Module Other_layer False [Module BatchNorm2d False []])
          True (Module Other_layer False [])) (7::nat))) ! 1
       = Module Other_layer True [Module BatchNorm2d True []]"
proof -
  have a: "asm (LitI3DFC_init (Module Other_layer False [Module BatchNorm3d False [], Module BatchNorm2d False []])
          True (Module Other_layer False [Module BatchNorm1d False []]) :: nat LitI3DFC)"
    by (simp add: LitI3DFC_init_def)
  have b: "asm (LitI3DFC_init (Module Other_layer False [Module BatchNorm2d False []])
          True (Module Other_layer False []) :: nat LitI3DFC)"
    by (simp add: LitI3DFC_init_def)
  show ?thesis
    using a b disable_bn_backbone_batchnorm3d_only [OF a, of 7]
      disable_bn_backbone_batchnorm3d_only [OF b, of 7]
    by (simp add: LitI3DFC_init_def)
qed

section \<open>Properties of the experiment fan-out\<close>

lemma str_nat_digit: "n < 10 \<Longrightarrow> str_nat n = [digit_char n]"
  by (subst str_nat.simps) simp

lemma str_int_0: "str_int 0 = ''0''"
  by (simp add: str_int_def str_nat_digit digit_char_def)

lemma str_int_1: "str_int 1 = ''1''"
  by (simp add: str_int_def str_nat_digit digit_char_def)

lemma queue_names_eq: "queue_names = [''16-0'', ''16-1'']"
  by (simp add: queue_names_def queue_names_of_def available_devices_def str_int_0 str_int_1)

lemma launch_source:
  "queues_buffer st = \<lparr>source = q # qs, saved = sv, pos = p\<rparr> \<Longrightarrow>
   index (split_chr CHR ''-'' q) 1 = Inr g \<Longrightarrow>
   launch t ids pathway roi st =
     Inr \<lparr>queues_buffer = \<lparr>source = qs, saved = sv @ [q], pos = p\<rparr>,
          enqueued = enqueued st @
            [(t\<lparr>task_name := task_name t @ '' '' @ roi @ '' '' @ pathway,
                task_id := ids (length (enqueued st)),
                parent := task_id t,
                tags := tags t @ [roi, pathway, ''pyramid'', layers],
                parameters := overwrite roi pathway g (parameters t)\<rparr>, q)]\<rparr>"
  by (cases st) (simp add: launch_def next_cycle_def clone_def add_tags_def Let_def)

lemma job_summary_overwrite:
  "job_summary (t\<lparr>parameters := overwrite roi pathway g ps\<rparr>, q)
     = (Some (PyStr roi), Some (PyStr pathway), Some (PyStr g), q)"
  by (simp add: job_summary_def overwrite_def)

lemma start_tasks_summary:
  "map_sum id (\<lambda>st. map job_summary (enqueued st)) (start_tasks t ids) =
   Inr [(Some (PyStr ''LOC''), Some (PyStr ''topdown''), Some (PyStr ''0''), ''16-0''),
        (Some (PyStr ''FFA''), Some (PyStr ''topdown''), Some (PyStr ''1''), ''16-1''),
        (Some (PyStr ''STS''), Some (PyStr ''topdown''), Some (PyStr ''0''), ''16-0''),
        (Some (PyStr ''EBA''), Some (PyStr ''topdown''), Some (PyStr ''1''), ''16-1''),
        (Some (PyStr ''PPA''), Some (PyStr ''topdown''), Some (PyStr ''0''), ''16-0''),
        (Some (PyStr ''V1''), Some (PyStr ''topdown''), Some (PyStr ''1''), ''16-1''),
        (Some (PyStr ''V2''), Some (PyStr ''topdown''), Some (PyStr ''0''), ''16-0''),
        (Some (PyStr ''V3''), Some (PyStr ''topdown''), Some (PyStr ''1''), ''16-1''),
        (Some (PyStr ''V4''), Some (PyStr ''topdown''), Some (PyStr ''0''), ''16-0''),
        (Some (PyStr ''LOC''), Some (PyStr ''none''), Some (PyStr ''1''), ''16-1''),
        (Some (PyStr ''FFA''), Some (PyStr ''none''), Some (PyStr ''0''), ''16-0''),
        (Some (PyStr ''STS''), Some (PyStr ''none''), Some (PyStr ''1''), ''16-1''),
        (Some (PyStr ''EBA''), Some (PyStr ''none''), Some (PyStr ''0''), ''16-0''),
        (Some (PyStr ''PPA''), Some (PyStr ''none''), Some (PyStr ''1''), ''16-1''),
        (Some (PyStr ''V1''), Some (PyStr ''none''), Some (PyStr ''0''), ''16-0''),
        (Some (PyStr ''V2''), Some (PyStr ''none''), Some (PyStr ''1''), ''16-1''),
        (Some (PyStr ''V3''), Some (PyStr ''none''), Some (PyStr ''0''), ''16-0''),
        (Some (PyStr ''V4''), Some (PyStr ''none''), Some (PyStr ''1''), ''16-1'')]"
  by (simp add: start_tasks_def queue_names_eq pathways_def rois_def cycle_def
      launch_def next_cycle_def index_def clone_def add_tags_def Let_def job_summary_overwrite)


lemma start_tasks_Inr:
  "\<exists>st. start_tasks t ids = Inr st"
  using start_tasks_summary [of t ids] by (cases "start_tasks t ids") simp_all

lemma submitted_summary:
  "map job_summary (submitted t ids) =
       [(Some (PyStr ''LOC''), Some (PyStr ''topdown''), Some (PyStr ''0''), ''16-0''),
        (Some (PyStr ''FFA''), Some (PyStr ''topdown''), Some (PyStr ''1''), ''16-1''),
        (Some (PyStr ''STS''), Some (PyStr ''topdown''), Some (PyStr ''0''), ''16-0''),
        (Some (PyStr ''EBA''), Some (PyStr ''topdown''), Some (PyStr ''1''), ''16-1''),
        (Some (PyStr ''PPA''), Some (PyStr ''topdown''), Some (PyStr ''0''), ''16-0''),
        (Some (PyStr ''V1''), Some (PyStr ''topdown''), Some (PyStr ''1''), ''16-1''),
        (Some (PyStr ''V2''), Some (PyStr ''topdown''), Some (PyStr ''0''), ''16-0''),
        (Some (PyStr ''V3''), Some (PyStr ''topdown''), Some (PyStr ''1''), ''16-1''),
        (Some (PyStr ''V4''), Some (PyStr ''topdown''), Some (PyStr ''0''), ''16-0''),
        (Some (PyStr ''LOC''), Some (PyStr ''none''), Some (PyStr ''1''), ''16-1''),
        (Some (PyStr ''FFA''), Some (PyStr ''none''), Some (PyStr ''0''), ''16-0''),
        (Some (PyStr ''STS''), Some (PyStr ''none''), Some (PyStr ''1''), ''16-1''),
        (Some (PyStr ''EBA''), Some (PyStr ''none''), Some (PyStr ''0''), ''16-0''),
        (Some (PyStr ''PPA''), Some (PyStr ''none''), Some (PyStr ''1''), ''16-1''),
        (Some (PyStr ''V1''), Some (PyStr ''none''), Some (PyStr ''0''), ''16-0''),
        (Some (PyStr ''V2''), Some (PyStr ''none''), Some (PyStr ''1''), ''16-1''),
        (Some (PyStr ''V3''), Some (PyStr ''none''), Some (PyStr ''0''), ''16-0''),
        (Some (PyStr ''V4''), Some (PyStr ''none''), Some (PyStr ''1''), ''16-1'')]"
  using start_tasks_summary [of t ids]
  by (cases "start_tasks t ids") (simp_all add: submitted_def)

lemma snd_job_summary: "snd (snd (snd (job_summary j))) = snd j"
  by (simp add: job_summary_def)

lemma submitted_queues:
  "map snd (submitted t ids) =
     [''16-0'', ''16-1'', ''16-0'', ''16-1'', ''16-0'', ''16-1'', ''16-0'', ''16-1'', ''16-0'',
      ''16-1'', ''16-0'', ''16-1'', ''16-0'', ''16-1'', ''16-0'', ''16-1'', ''16-0'', ''16-1'']"
proof -
  have "map snd (submitted t ids) = map (\<lambda>s. snd (snd (snd s))) (map job_summary (submitted t ids))"
    by (simp add: snd_job_summary o_def)
  then show ?thesis
    by (simp only: submitted_summary list.map snd_conv)
qed

lemma upt_18: "[0..<18] = [0, 1, 2, 3, 4, 5, 6, 7, 8, 9, 10, 11, 12, 13, 14, 15, 16, 17]"
  by code_simp

lemma digit_char_no_hyphen: "n < 10 \<Longrightarrow> digit_char n \<noteq> CHR ''-''"
proof -
  assume "n < 10"
  then have "digit_char n \<in> set ''0123456789''"
    unfolding digit_char_def by (intro nth_mem) simp
  then show ?thesis by auto
qed

lemma str_nat_no_hyphen: "CHR ''-'' \<notin> set (str_nat n)"
proof (induction n rule: str_nat.induct)
  case (1 n)
  show ?case
  proof (cases "n < 10")
    case True
    then show ?thesis
      using digit_char_no_hyphen [of n] by (simp add: str_nat_digit)
  next
    case False
    have "str_nat n = str_nat (n div 10) @ [digit_char (n mod 10)]"
      using False by (subst str_nat.simps) simp
    with 1 False show ?thesis
      using digit_char_no_hyphen [of "n mod 10"] by simp
  qed
qed

lemma split_chr_no_sep: "c \<notin> set s \<Longrightarrow> split_chr c s = [s]"
  by (induction s) auto

lemma split_chr_prefix: "c \<notin> set k \<Longrightarrow> split_chr c (k @ c # s) = k # split_chr c s"
  by (induction k) auto

lemma split_queue_name:
  assumes "CHR ''-'' \<notin> set k" "0 \<le> v"
  shows "index (split_chr CHR ''-'' (k @ ''-'' @ str_int v)) 1 = Inr (str_int v)"
proof -
  have "CHR ''-'' \<notin> set (str_int v)"
    using assms(2) by (simp add: str_int_def str_nat_no_hyphen)
  then have "split_chr CHR ''-'' (k @ ''-'' @ str_int v) = [k, str_int v]"
    using assms(1) by (simp add: split_chr_prefix split_chr_no_sep)
  then show ?thesis by (simp add: index_def)
qed

text \<open>
  Claim C6.  The device pool gives the two queues \<open>16-0\<close> and \<open>16-1\<close>; the two pathways
  and nine regions give eighteen jobs, all of which are enqueued; and job \<open>i\<close> (counting
  from \<open>0\<close>, pathways in the outer loop and regions in the inner one) goes to queue
  number \<open>i mod 2\<close>, so the queues alternate \<open>16-0\<close>, \<open>16-1\<close>, \<open>16-0\<close>, \<open>16-1\<close>, and so on.
\<close>

theorem fan_out_round_robin:
  "queue_names = [''16-0'', ''16-1'']
   \<and> length pathways * length rois = 18
   \<and> (\<exists>st. start_tasks t ids = Inr st \<and> enqueued st = submitted t ids)
   \<and> map snd (submitted t ids) = map (\<lambda>i. queue_names ! (i mod 2)) [0..<18]
   \<and> map job_summary (submitted t ids) =
       map (\<lambda>i. (Some (PyStr (rois ! (i mod 9))), Some (PyStr (pathways ! (i div 9))),
                 Some (PyStr (str_int (int (i mod 2)))), queue_names ! (i mod 2))) [0..<18]
   \<and> map snd (submitted t ids) =
     [''16-0'', ''16-1'', ''16-0'', ''16-1'', ''16-0'', ''16-1'', ''16-0'', ''16-1'', ''16-0'',
      ''16-1'', ''16-0'', ''16-1'', ''16-0'', ''16-1'', ''16-0'', ''16-1'', ''16-0'', ''16-1'']"
proof -
  have c3: "\<exists>st. start_tasks t ids = Inr st \<and> enqueued st = submitted t ids"
    using start_tasks_Inr [of t ids] by (auto simp: submitted_def)
  have "map (\<lambda>i. queue_names ! (i mod 2)) [0..<18] =
     [''16-0'', ''16-1'', ''16-0'', ''16-1'', ''16-0'', ''16-1'', ''16-0'', ''16-1'', ''16-0'',
      ''16-1'', ''16-0'', ''16-1'', ''16-0'', ''16-1'', ''16-0'', ''16-1'', ''16-0'', ''16-1'']"
    unfolding upt_18 queue_names_eq by simp
  then have c4: "map snd (submitted t ids) = map (\<lambda>i. queue_names ! (i mod 2)) [0..<18]"
    by (simp only: submitted_queues)
  have "map (\<lambda>i. (Some (PyStr (rois ! (i mod 9))), Some (PyStr (pathways ! (i div 9))),
                 Some (PyStr (str_int (int (i mod 2)))), queue_names ! (i mod 2))) [0..<18]
           = map job_summary (submitted t ids)"
    unfolding upt_18 queue_names_eq submitted_summary
    by (simp add: rois_def pathways_def str_int_0 str_int_1)
  then have c5: "map job_summary (submitted t ids) =
       map (\<lambda>i. (Some (PyStr (rois ! (i mod 9))), Some (PyStr (pathways ! (i div 9))),
                 Some (PyStr (str_int (int (i mod 2)))), queue_names ! (i mod 2))) [0..<18]"
    by (rule sym)
  have c2: "length pathways * length rois = 18"
    by (simp add: rois_def pathways_def)
  show ?thesis
    by (intro conjI queue_names_eq c2 c3 c4 c5 submitted_queues)
qed

text \<open>
  Claim C7.  Every queue name of the script is a key of the device pool, a hyphen, and
  one of the device indices of that key; every enqueued job has such a queue, and its
  parameter \<open>Args/gpus\<close> is the second hyphen-separated field of its queue name, which
  is the device index.  For any key without a hyphen and any index that is not negative,
  that field of the name built from them is the index.
\<close>

theorem queue_name_convention_and_gpus:
  "list_all (follows_convention available_devices) queue_names
   \<and> list_all (\<lambda>j. follows_convention available_devices (snd j)
                  \<and> gpus_of_queue (snd j) (parameters (fst j) ''Args/gpus'')) (submitted t ids)
   \<and> map (\<lambda>j. (snd j, parameters (fst j) ''Args/gpus'')) (submitted t ids) =
       map (\<lambda>i. (''16'' @ ''-'' @ str_int (int (i mod 2)), Some (PyStr (str_int (int (i mod 2))))))
           [0..<18]
   \<and> (CHR ''-'' \<notin> set k \<and> 0 \<le> v \<longrightarrow>
        index (split_chr CHR ''-'' (k @ ''-'' @ str_int v)) 1 = Inr (str_int v))"
proof -
  let ?P = "\<lambda>s. follows_convention available_devices (snd (snd (snd s)))
                \<and> gpus_of_queue (snd (snd (snd s))) (fst (snd (snd s)))"
  have fc: "follows_convention available_devices ''16-0''" "follows_convention available_devices ''16-1''"
    by (simp_all add: follows_convention_def available_devices_def str_int_0 str_int_1)
  have gq: "gpus_of_queue ''16-0'' (Some (PyStr ''0''))" "gpus_of_queue ''16-1'' (Some (PyStr ''1''))"
    by (simp_all add: gpus_of_queue_def index_def)
  have 1: "list_all (follows_convention available_devices) queue_names"
    by (simp add: queue_names_eq fc)
  have "list_all ?P (map job_summary (submitted t ids))"
    unfolding submitted_summary by (simp add: fc gq)
  then have 2: "list_all (\<lambda>j. follows_convention available_devices (snd j)
                  \<and> gpus_of_queue (snd j) (parameters (fst j) ''Args/gpus'')) (submitted t ids)"
    by (simp add: list_all_iff job_summary_def)
  have "map (\<lambda>j. (snd j, parameters (fst j) ''Args/gpus'')) (submitted t ids)
        = map (\<lambda>s. (snd (snd (snd s)), fst (snd (snd s)))) (map job_summary (submitted t ids))"
    by (simp add: job_summary_def o_def)
  also have "\<dots> = map (\<lambda>i. (''16'' @ ''-'' @ str_int (int (i mod 2)),
                             Some (PyStr (str_int (int (i mod 2)))))) [0..<18]"
    unfolding submitted_summary upt_18 by (simp add: str_int_0 str_int_1)
  finally have 3: "map (\<lambda>j. (snd j, parameters (fst j) ''Args/gpus'')) (submitted t ids) =
       map (\<lambda>i. (''16'' @ ''-'' @ str_int (int (i mod 2)), Some (PyStr (str_int (int (i mod 2))))))
           [0..<18]" .
  have 4: "CHR ''-'' \<notin> set k \<and> 0 \<le> v \<longrightarrow>
        index (split_chr CHR ''-'' (k @ ''-'' @ str_int v)) 1 = Inr (str_int v)"
    using split_queue_name [of k v] by blast
  from 1 2 3 4 show ?thesis by blast
qed

theorem queue_name_convention_and_gpus_witness:
  "CHR ''-'' \<notin> set ''16'' \<and> (0::int) \<le> 1
   \<and> index (split_chr CHR ''-'' (''16'' @ ''-'' @ str_int 1)) 1 = Inr ''1''
   \<and> list_all (follows_convention available_devices) queue_names"
  using queue_name_convention_and_gpus
    [where k = "''16''" and v = 1 and ids = str_nat
       and t = "\<lparr>task_name = ''task template'', task_id = ''template'', parent = [], tags = [],
                  parameters = Map.empty\<rparr>"]
  by (simp add: str_int_1)

end
